theory Spec2Isabelle
  imports Main "HOL-Library.Multiset"
begin

section \<open>Values and the clock\<close>

text \<open>
  The server mounts the JSON body parser and the urlencoded one (extended) before the
  routes, so a field of \<open>req.body\<close> is absent (\<open>undefined\<close>) or any value these parsers
  build: \<open>null\<close>, a boolean, a number, a string, an array or an object. \<open>req.body\<close> is a
  map from field names to such values. The representation of numbers is a type parameter,
  since no operation of the controller computes with an amount. Dates are milliseconds
  since the epoch.
\<close>

datatype 'n jsval =
    JNull
  | JBool bool
  | JNumber 'n
  | JString string
  | JArray "'n jsval list"
  | JObject "(string \<times> 'n jsval) list"

text \<open>
  What the JavaScript engine and the casts of the schema library make of a value is not
  fixed by the repository, and is taken as a parameter wherever it is not plain:
  \<open>Number(s)\<close> of a string (\<open>None\<close> stands for \<open>NaN\<close>), the \<open>Date\<close> cast of a non-empty
  string and of a number (\<open>None\<close> for an invalid date), \<open>String(n)\<close> and \<open>Number(b)\<close>,
  which numbers are falsy (zero), and the casts of an array or an object to the three
  types of the schema (\<open>None\<close> when the cast fails).
\<close>

record 'n engine =
  toNumber :: "string \<Rightarrow> 'n option"
  toDate :: "string \<Rightarrow> int option"
  numberToString :: "'n \<Rightarrow> string"
  boolToNumber :: "bool \<Rightarrow> 'n"
  numberToDate :: "'n \<Rightarrow> int option"
  falsyNumber :: "'n \<Rightarrow> bool"
  compositeToString :: "'n jsval \<Rightarrow> string option"
  compositeToNumber :: "'n jsval \<Rightarrow> 'n option"
  compositeToDate :: "'n jsval \<Rightarrow> int option"

text \<open>
  One run of the create handler reads the clock up to three times, in this order:
  \<open>Date.now()\<close> for the identifier, \<open>new Date()\<close> for a missing date, and
  \<open>Date.now\<close> as the default of \<open>createdAt\<close> when the document is constructed.
  The later readings are given by the time elapsed since the first one: the clock is not
  set back while a request is handled.
\<close>

record clock =
  now :: nat
  until_date :: nat
  until_created :: nat

fun digit_char :: "nat \<Rightarrow> char" where
  "digit_char n = (''0123456789'' ! (n mod 10))"

text \<open>The decimal text of a non-negative integer, as a template literal prints it.\<close>

fun show_nat :: "nat \<Rightarrow> string" where
  "show_nat n = (if n < 10 then [digit_char n] else show_nat (n div 10) @ [digit_char (n mod 10)])"

declare show_nat.simps [simp del]

fun digit_val :: "char \<Rightarrow> nat" where
  "digit_val c = of_char c - 48"

text \<open>The number a string of decimal digits denotes (most significant digit first).\<close>

definition read_nat :: "string \<Rightarrow> nat" where
  "read_nat s = foldl (\<lambda>acc c. 10 * acc + digit_val c) 0 s"

section \<open>The schema (src/models/Salary.js)\<close>

datatype 'a default_spec = NoDefault | DefaultValue 'a | DefaultNow

record 'a path_opts =
  required :: bool
  unique :: bool
  enum :: "'a list option"
  default_val :: "'a default_spec"

definition salaryId_opts :: "string path_opts" where
  "salaryId_opts = \<lparr>required = True, unique = True, enum = None, default_val = NoDefault\<rparr>"

definition employeeName_opts :: "string path_opts" where
  "employeeName_opts = \<lparr>required = True, unique = False, enum = None, default_val = NoDefault\<rparr>"

definition amount_opts :: "'n path_opts" where
  "amount_opts = \<lparr>required = True, unique = False, enum = None, default_val = NoDefault\<rparr>"

definition type_opts :: "string path_opts" where
  "type_opts = \<lparr>required = False, unique = False, enum = Some [''full'', ''advance''],
     default_val = DefaultValue ''full''\<rparr>"

definition date_opts :: "int path_opts" where
  "date_opts = \<lparr>required = True, unique = False, enum = None, default_val = NoDefault\<rparr>"

definition notes_opts :: "string path_opts" where
  "notes_opts = \<lparr>required = False, unique = False, enum = None, default_val = NoDefault\<rparr>"

definition recordedBy_opts :: "string path_opts" where
  "recordedBy_opts = \<lparr>required = False, unique = False, enum = None, default_val = NoDefault\<rparr>"

definition createdAt_opts :: "int path_opts" where
  "createdAt_opts = \<lparr>required = False, unique = False, enum = None, default_val = DefaultNow\<rparr>"

text \<open>
  A stored salary document: the required paths hold a value; on the others \<open>None\<close> says
  that the document has no value there (the path is absent or \<open>null\<close>).
\<close>

record 'n salary =
  salaryId :: string
  employeeName :: string
  amount :: 'n
  type :: "string option"
  date :: int
  "notes" :: "string option"
  recordedBy :: "string option"
  createdAt :: "int option"

text \<open>
  What a path of a freshly constructed document holds: nothing, \<open>null\<close>, a value of the
  path's type, or a value that could not be cast to it (reported when the document is
  validated).
\<close>

datatype 'a cast = Missing | Null | CastError | Value 'a

text \<open>
  A value handed to a \<open>Date\<close> path: a value of the body or a \<open>Date\<close> object.
\<close>

datatype 'n raw_date = FromBody "'n jsval" | DateObject int

text \<open>
  The casts. \<open>null\<close> stays \<open>null\<close> on every path. A \<open>String\<close> path takes a string as it
  is and the text of a boolean or a number. A \<open>Number\<close> path turns the empty string into
  \<open>null\<close>. A \<open>Date\<close> path does so too, and refuses a boolean.
\<close>

fun castString :: "'n engine \<Rightarrow> 'n jsval option \<Rightarrow> string cast" where
  "castString eng None = Missing"
| "castString eng (Some JNull) = Null"
| "castString eng (Some (JString s)) = Value s"
| "castString eng (Some (JBool b)) = Value (if b then ''true'' else ''false'')"
| "castString eng (Some (JNumber n)) = Value (numberToString eng n)"
| "castString eng (Some v) =
     (case compositeToString eng v of None \<Rightarrow> CastError | Some s \<Rightarrow> Value s)"

fun castNumber :: "'n engine \<Rightarrow> 'n jsval option \<Rightarrow> 'n cast" where
  "castNumber eng None = Missing"
| "castNumber eng (Some JNull) = Null"
| "castNumber eng (Some (JString s)) =
     (if s = [] then Null
      else (case toNumber eng s of None \<Rightarrow> CastError | Some n \<Rightarrow> Value n))"
| "castNumber eng (Some (JBool b)) = Value (boolToNumber eng b)"
| "castNumber eng (Some (JNumber n)) = Value n"
| "castNumber eng (Some v) =
     (case compositeToNumber eng v of None \<Rightarrow> CastError | Some n \<Rightarrow> Value n)"

fun castDate :: "'n engine \<Rightarrow> 'n raw_date option \<Rightarrow> int cast" where
  "castDate eng None = Missing"
| "castDate eng (Some (DateObject d)) = Value d"
| "castDate eng (Some (FromBody JNull)) = Null"
| "castDate eng (Some (FromBody (JString s))) =
     (if s = [] then Null
      else (case toDate eng s of None \<Rightarrow> CastError | Some d \<Rightarrow> Value d))"
| "castDate eng (Some (FromBody (JBool b))) = CastError"
| "castDate eng (Some (FromBody (JNumber n))) =
     (case numberToDate eng n of None \<Rightarrow> CastError | Some d \<Rightarrow> Value d)"
| "castDate eng (Some (FromBody v)) =
     (case compositeToDate eng v of None \<Rightarrow> CastError | Some d \<Rightarrow> Value d)"

text \<open>
  A default applies to a path that was given no value (\<open>undefined\<close>) only. \<open>current\<close>
  is the clock's reading as a value of the path's type; only \<open>Date\<close> paths of this
  schema ask for it.
\<close>

definition apply_default :: "'a path_opts \<Rightarrow> 'a option \<Rightarrow> 'a cast \<Rightarrow> 'a cast" where
  "apply_default opts current c =
     (case c of
        Missing \<Rightarrow>
          (case default_val opts of
             NoDefault \<Rightarrow> Missing
           | DefaultValue v \<Rightarrow> Value v
           | DefaultNow \<Rightarrow> (case current of None \<Rightarrow> Missing | Some t \<Rightarrow> Value t))
      | _ \<Rightarrow> c)"

text \<open>The document under construction, before validation.\<close>

record 'n salary_doc =
  p_salaryId :: "string cast"
  p_employeeName :: "string cast"
  p_amount :: "'n cast"
  p_type :: "string cast"
  p_date :: "int cast"
  p_notes :: "string cast"
  p_recordedBy :: "string cast"
  p_createdAt :: "int cast"

text \<open>The plain object the controller passes to \<open>new Salary(...)\<close>.\<close>

record 'n salary_input =
  in_salaryId :: "'n jsval option"
  in_employeeName :: "'n jsval option"
  in_amount :: "'n jsval option"
  in_type :: "'n jsval option"
  in_date :: "'n raw_date option"
  in_notes :: "'n jsval option"
  in_recordedBy :: "'n jsval option"

text \<open>\<open>new Salary(obj)\<close>: every path is cast to its type and given its default.\<close>

definition new_Salary :: "'n engine \<Rightarrow> nat \<Rightarrow> 'n salary_input \<Rightarrow> 'n salary_doc" where
  "new_Salary eng created obj =
     \<lparr>p_salaryId = apply_default salaryId_opts None (castString eng (in_salaryId obj)),
      p_employeeName = apply_default employeeName_opts None (castString eng (in_employeeName obj)),
      p_amount = apply_default amount_opts None (castNumber eng (in_amount obj)),
      p_type = apply_default type_opts None (castString eng (in_type obj)),
      p_date = apply_default date_opts (Some (int created)) (castDate eng (in_date obj)),
      p_notes = apply_default notes_opts None (castString eng (in_notes obj)),
      p_recordedBy = apply_default recordedBy_opts None (castString eng (in_recordedBy obj)),
      p_createdAt = apply_default createdAt_opts (Some (int created)) Missing\<rparr>"

text \<open>
  The validators of a path. \<open>required\<close> wants a value, and a non-empty one on a string
  path; a value that could not be cast fails whatever the options; \<open>enum\<close> is checked on
  a value that is there.
\<close>

definition required_fails :: "'a path_opts \<Rightarrow> ('a \<Rightarrow> bool) \<Rightarrow> 'a cast \<Rightarrow> bool" where
  "required_fails opts blank c =
     (required opts \<and> (case c of Value v \<Rightarrow> blank v | CastError \<Rightarrow> False | _ \<Rightarrow> True))"

definition enum_fails :: "'a path_opts \<Rightarrow> 'a cast \<Rightarrow> bool" where
  "enum_fails opts c =
     (case enum opts of
        None \<Rightarrow> False
      | Some vals \<Rightarrow> (case c of Value v \<Rightarrow> v \<notin> set vals | _ \<Rightarrow> False))"

definition path_fails :: "'a path_opts \<Rightarrow> ('a \<Rightarrow> bool) \<Rightarrow> 'a cast \<Rightarrow> bool" where
  "path_fails opts blank c = (c = CastError \<or> required_fails opts blank c \<or> enum_fails opts c)"

definition invalid_paths :: "'n salary_doc \<Rightarrow> string list" where
  "invalid_paths d =
     (if path_fails salaryId_opts (\<lambda>s. s = []) (p_salaryId d) then [''salaryId''] else []) @
     (if path_fails employeeName_opts (\<lambda>s. s = []) (p_employeeName d) then [''employeeName''] else []) @
     (if path_fails amount_opts (\<lambda>_. False) (p_amount d) then [''amount''] else []) @
     (if path_fails type_opts (\<lambda>s. s = []) (p_type d) then [''type''] else []) @
     (if path_fails date_opts (\<lambda>_. False) (p_date d) then [''date''] else []) @
     (if path_fails notes_opts (\<lambda>s. s = []) (p_notes d) then [''notes''] else []) @
     (if path_fails recordedBy_opts (\<lambda>s. s = []) (p_recordedBy d) then [''recordedBy''] else []) @
     (if path_fails createdAt_opts (\<lambda>_. False) (p_createdAt d) then [''createdAt''] else [])"

definition to_option :: "'a cast \<Rightarrow> 'a option" where
  "to_option c = (case c of Value v \<Rightarrow> Some v | _ \<Rightarrow> None)"

text \<open>
  \<open>doc.validate()\<close>: the paths that fail, or the document as it will be stored.
\<close>

definition validate :: "'n salary_doc \<Rightarrow> string list + 'n salary" where
  "validate d =
     (case (p_salaryId d, p_employeeName d, p_amount d, p_date d) of
        (Value i, Value e, Value a, Value dt) \<Rightarrow>
          if invalid_paths d = [] then
            Inr \<lparr>salaryId = i, employeeName = e, amount = a, type = to_option (p_type d),
                 date = dt, notes = to_option (p_notes d),
                 recordedBy = to_option (p_recordedBy d),
                 createdAt = to_option (p_createdAt d)\<rparr>
          else Inl (invalid_paths d)
      | _ \<Rightarrow> Inl (invalid_paths d))"

section \<open>The store\<close>

text \<open>
  The collection is the list of its documents in insertion order. A query sent while the
  database cannot be reached is rejected; the controller's \<open>catch\<close> blocks are for that
  and for the errors of \<open>save\<close>.
\<close>

datatype error = TypeError | ValidationError "string list" | DuplicateKey | StoreUnavailable

record 'n store =
  online :: bool
  docs :: "'n salary list"

text \<open>
  \<open>Salary.find().sort({ date: -1 })\<close>: every document, latest date first. The database
  promises nothing about documents of equal date; the model keeps them in insertion order.
\<close>

definition find_sort_date_desc :: "'n store \<Rightarrow> error + 'n salary list" where
  "find_sort_date_desc st =
     (if online st then Inr (sort_key (\<lambda>d. - date d) (docs st)) else Inl StoreUnavailable)"

text \<open>
  \<open>doc.save()\<close>: validation runs first, in the application; the insert then meets the unique
  index on \<open>salaryId\<close>.
\<close>

definition save :: "'n salary_doc \<Rightarrow> 'n store \<Rightarrow> error + 'n store" where
  "save d st =
     (case validate d of
        Inl ps \<Rightarrow> Inl (ValidationError ps)
      | Inr doc \<Rightarrow>
          if \<not> online st then Inl StoreUnavailable
          else if unique salaryId_opts \<and> salaryId doc \<in> salaryId ` set (docs st)
          then Inl DuplicateKey
          else Inr (st\<lparr>docs := docs st @ [doc]\<rparr>))"

fun delete_first :: "('a \<Rightarrow> bool) \<Rightarrow> 'a list \<Rightarrow> 'a list" where
  "delete_first P [] = []"
| "delete_first P (x # xs) = (if P x then xs else x # delete_first P xs)"

text \<open>
  \<open>Salary.findOneAndDelete({ salaryId: id })\<close>: removes the first document that matches and
  resolves to it, or to \<open>null\<close> when none does.
\<close>

definition findOneAndDelete :: "string \<Rightarrow> 'n store \<Rightarrow> error + ('n salary option \<times> 'n store)" where
  "findOneAndDelete sid st =
     (if online st
      then Inr (find (\<lambda>d. salaryId d = sid) (docs st),
                st\<lparr>docs := delete_first (\<lambda>d. salaryId d = sid) (docs st)\<rparr>)
      else Inl StoreUnavailable)"

section \<open>The controller (salaryController)\<close>

record user =
  name :: "string option"

record 'n request =
  body :: "string \<rightharpoonup> 'n jsval"
  session_user :: "user option"
  params_id :: string

record 'n page =
  title :: string
  salaries :: "'n salary list"
  user :: "user option"
  path :: string

datatype 'n response = Render string "'n page" | Redirect string | Status nat string

text \<open>
  A handler's outcome: the response, what \<open>console.error\<close> logged, and the store afterwards.
\<close>

type_synonym 'n outcome = "'n response \<times> error option \<times> 'n store"

definition getSalaries :: "'n request \<Rightarrow> 'n store \<Rightarrow> 'n outcome" where
  "getSalaries req st =
     (case find_sort_date_desc st of
        Inr found \<Rightarrow>
          (Render ''pages/salaries''
             \<lparr>title = ''Salaries'', salaries = found, user = session_user req,
              path = ''/salaries''\<rparr>, None, st)
      | Inl err \<Rightarrow> (Status 500 ''Server Error'', Some err, st))"

text \<open>
  The values JavaScript takes for false: \<open>null\<close>, \<open>false\<close>, zero and the empty string. An
  array and an object are truthy, also when empty.
\<close>

fun falsy :: "'n engine \<Rightarrow> 'n jsval \<Rightarrow> bool" where
  "falsy eng JNull = True"
| "falsy eng (JBool b) = (\<not> b)"
| "falsy eng (JNumber n) = falsyNumber eng n"
| "falsy eng (JString s) = (s = [])"
| "falsy eng (JArray vs) = False"
| "falsy eng (JObject fs) = False"

text \<open>\<open>date || new Date()\<close>: the clock is read when the date is absent or falsy.\<close>

definition date_or_now :: "'n engine \<Rightarrow> 'n jsval option \<Rightarrow> nat \<Rightarrow> 'n raw_date" where
  "date_or_now eng d t =
     (case d of
        None \<Rightarrow> DateObject (int t)
      | Some v \<Rightarrow> if falsy eng v then DateObject (int t) else FromBody v)"

text \<open>
  The object literal handed to \<open>new Salary\<close>, for a request whose session has the user
  \<open>u\<close>. Its fields are evaluated in order: \<open>Date.now()\<close> first, \<open>new Date()\<close> when the
  body gives no date, \<open>req.session.user.name\<close> last.
\<close>

definition create_input :: "'n engine \<Rightarrow> clock \<Rightarrow> 'n request \<Rightarrow> user \<Rightarrow> 'n salary_input" where
  "create_input eng clk req u =
     \<lparr>in_salaryId = Some (JString (''SAL'' @ show_nat (now clk))),
      in_employeeName = body req ''employeeName'',
      in_amount = body req ''amount'',
      in_type = body req ''type'',
      in_date = Some (date_or_now eng (body req ''date'') (now clk + until_date clk)),
      in_notes = body req ''notes'',
      in_recordedBy = map_option JString (name u)\<rparr>"

text \<open>
  When the session has no user, \<open>req.session.user.name\<close> throws a \<open>TypeError\<close> inside the
  object literal: \<open>new Salary\<close> and \<open>save\<close> are never reached, and the \<open>catch\<close> block
  answers.
\<close>

definition addSalary :: "'n engine \<Rightarrow> clock \<Rightarrow> 'n request \<Rightarrow> 'n store \<Rightarrow> 'n outcome" where
  "addSalary eng clk req st =
     (case session_user req of
        None \<Rightarrow> (Status 500 ''Server Error'', Some TypeError, st)
      | Some u \<Rightarrow>
          (case save
                  (new_Salary eng (now clk + until_date clk + until_created clk)
                     (create_input eng clk req u))
                  st of
             Inr st' \<Rightarrow> (Redirect ''/salaries'', None, st')
           | Inl err \<Rightarrow> (Status 500 ''Server Error'', Some err, st)))"

definition deleteSalary :: "'n request \<Rightarrow> 'n store \<Rightarrow> 'n outcome" where
  "deleteSalary req st =
     (case findOneAndDelete (params_id req) st of
        Inr (_, st') \<Rightarrow> (Redirect ''/salaries'', None, st')
      | Inl err \<Rightarrow> (Status 500 ''Server Error'', Some err, st))"

section \<open>The connection manager (server.js)\<close>

text \<open>
  An environment variable is a string or is not set; the empty string is falsy.
\<close>

definition truthy :: "string option \<Rightarrow> bool" where
  "truthy v = (case v of None \<Rightarrow> False | Some s \<Rightarrow> s \<noteq> [])"

type_synonym handle = nat

datatype settled = Pending | Fulfilled handle | Rejected

text \<open>\<open>global.mongoose\<close>: the connection and the promise of the attempt that makes it.\<close>

record cache =
  conn :: "handle option"
  promise :: "nat option"

text \<open>
  The process: the cache, the environment, every promise \<open>mongoose.connect\<close> has returned
  so far (numbered from 0) and how many there are.
\<close>

record proc =
  cached :: cache
  MONGODB_URI :: "string option"
  VERCEL :: "string option"
  VERCEL_ENV :: "string option"
  promises :: "nat \<Rightarrow> settled"
  connects :: nat

definition isVercel :: "proc \<Rightarrow> bool" where
  "isVercel p = (truthy (VERCEL p) \<or> truthy (VERCEL_ENV p))"

text \<open>
  \<open>cached.promise = mongoose.connect(...).then(...)\<close>: a new attempt starts, and its promise
  is cached.
\<close>

definition connect_and_cache :: "proc \<Rightarrow> nat \<times> proc" where
  "connect_and_cache p =
     (connects p,
      p\<lparr>cached := (cached p)\<lparr>promise := Some (connects p)\<rparr>,
        promises := (promises p)(connects p := Pending),
        connects := Suc (connects p)\<rparr>)"

text \<open>
  \<open>connectDB\<close> is asynchronous: a call runs until it returns or reaches an \<open>await\<close>, and is
  resumed when what it waits for has settled. JavaScript runs each of these stretches to
  completion, so a stretch is one step on the process.
\<close>

datatype suspended =
    Done "handle option"
  | AwaitConnect nat
  | AwaitMemoryServer
  | AwaitFallbackConnect nat

text \<open>The in-memory fallback, up to \<open>await MongoMemoryServer.create()\<close>.\<close>

definition fallback :: "proc \<Rightarrow> suspended \<times> proc" where
  "fallback p = (if \<not> isVercel p then (AwaitMemoryServer, p) else (Done None, p))"

text \<open>A call of \<open>connectDB\<close>, up to its first \<open>await\<close>.\<close>

definition connectDB :: "proc \<Rightarrow> suspended \<times> proc" where
  "connectDB p =
     (case conn (cached p) of
        Some h \<Rightarrow> (Done (Some h), p)
      | None \<Rightarrow>
          if \<not> truthy (MONGODB_URI p) \<and> isVercel p then (Done None, p)
          else if truthy (MONGODB_URI p) then
            (case promise (cached p) of
               None \<Rightarrow> (let (pid, p') = connect_and_cache p in (AwaitConnect pid, p'))
             | Some pid \<Rightarrow> (AwaitConnect pid, p))
          else fallback p)"

text \<open>The call resumes after \<open>await cached.promise\<close> on the configured URI.\<close>

definition connectDB_connected :: "nat \<Rightarrow> proc \<Rightarrow> suspended \<times> proc" where
  "connectDB_connected pid p =
     (case promises p pid of
        Pending \<Rightarrow> (AwaitConnect pid, p)
      | Fulfilled h \<Rightarrow> (Done (Some h), p\<lparr>cached := (cached p)\<lparr>conn := Some h\<rparr>\<rparr>)
      | Rejected \<Rightarrow> if isVercel p then (Done None, p) else fallback p)"

text \<open>
  The call resumes after \<open>await MongoMemoryServer.create()\<close>: \<open>created\<close> is the URI of the
  server, or \<open>None\<close> when creating it threw.
\<close>

definition connectDB_server_created :: "string option \<Rightarrow> proc \<Rightarrow> suspended \<times> proc" where
  "connectDB_server_created created p =
     (case created of
        None \<Rightarrow> (Done None, p)
      | Some uri \<Rightarrow>
          (let (pid, p') = connect_and_cache (p\<lparr>MONGODB_URI := Some uri\<rparr>)
           in (AwaitFallbackConnect pid, p')))"

text \<open>The call resumes after \<open>await cached.promise\<close> on the in-memory server.\<close>

definition connectDB_fallback_connected :: "nat \<Rightarrow> proc \<Rightarrow> suspended \<times> proc" where
  "connectDB_fallback_connected pid p =
     (case promises p pid of
        Pending \<Rightarrow> (AwaitFallbackConnect pid, p)
      | Fulfilled h \<Rightarrow> (Done (Some h), p\<lparr>cached := (cached p)\<lparr>conn := Some h\<rparr>\<rparr>)
      | Rejected \<Rightarrow> (Done None, p))"

text \<open>The driver settles a pending attempt.\<close>

definition settle :: "nat \<Rightarrow> settled \<Rightarrow> proc \<Rightarrow> proc" where
  "settle pid outcome p =
     (if promises p pid = Pending then p\<lparr>promises := (promises p)(pid := outcome)\<rparr> else p)"

section \<open>The request guard (server.js)\<close>

datatype verdict = Forward | Reply nat string

text \<open>
  The guard reads \<open>mongoose.connection.readyState\<close> (1 is connected, 2 is connecting) when the
  request arrives. Only when it reads 2 does it await \<open>connectDB()\<close>; \<open>threw\<close> says whether
  that call threw and \<open>after\<close> is the state read when the wait is over. The reply's body is
  the HTML page titled ``Setup Required''.
\<close>

definition db_guard :: "proc \<Rightarrow> nat \<Rightarrow> bool \<Rightarrow> nat \<Rightarrow> verdict" where
  "db_guard p arrival threw after =
     (if \<not> truthy (VERCEL p) \<and> \<not> truthy (VERCEL_ENV p) then Forward
      else if arrival = 1 then Forward
      else if arrival = 2 \<and> \<not> threw \<and> after = 1 then Forward
      else if (if arrival = 2 then after else arrival) \<noteq> 1
      then Reply 503 ''Setup Required''
      else Forward)"

text \<open>\<open>n\<close> calls of \<open>connectDB\<close> one after the other, each taken up to its first \<open>await\<close>.\<close>

fun connectDB_calls :: "nat \<Rightarrow> proc \<Rightarrow> suspended list \<times> proc" where
  "connectDB_calls 0 p = ([], p)"
| "connectDB_calls (Suc n) p =
     (let (r, p') = connectDB p; (rs, p'') = connectDB_calls n p' in (r # rs, p''))"

section \<open>Sample data\<close>

text \<open>A serverless process at start-up, and a local one.\<close>

definition cold :: proc where
  "cold = \<lparr>cached = \<lparr>conn = None, promise = None\<rparr>, MONGODB_URI = Some ''mongodb://db/pos'',
     VERCEL = Some ''1'', VERCEL_ENV = None, promises = (\<lambda>_. Pending), connects = 0\<rparr>"

definition local_proc :: proc where
  "local_proc = \<lparr>cached = \<lparr>conn = None, promise = None\<rparr>, MONGODB_URI = None,
     VERCEL = None, VERCEL_ENV = None, promises = (\<lambda>_. Pending), connects = 0\<rparr>"

text \<open>
  The serverless process after \<open>connectDB()\<close> at module load, and after the attempt has been
  fulfilled with the connection 7.
\<close>

definition connecting :: proc where
  "connecting = snd (connectDB cold)"

definition fulfilled :: proc where
  "fulfilled = settle 0 (Fulfilled 7) connecting"

definition warm :: proc where
  "warm = snd (connectDB_connected 0 fulfilled)"


definition alice :: "int salary" where
  "alice = \<lparr>salaryId = ''SAL1700000000000'', employeeName = ''Alice'', amount = 500,
     type = Some ''advance'', date = 1700000000000, notes = None,
     recordedBy = Some ''Admin'', createdAt = Some 1700000000002\<rparr>"

definition bob :: "int salary" where
  "bob = \<lparr>salaryId = ''SAL1700000000500'', employeeName = ''Bob'', amount = 1200,
     type = Some ''full'', date = 1704412800000, notes = Some ''January'',
     recordedBy = Some ''Admin'', createdAt = Some 1700000000502\<rparr>"

definition demo_store :: "int store" where
  "demo_store = \<lparr>online = True, docs = [alice, bob]\<rparr>"

definition demo_engine :: "int engine" where
  "demo_engine =
     \<lparr>toNumber = (\<lambda>s. if s = ''500'' then Some 500 else None),
      toDate = (\<lambda>s. if s = ''2024-01-05'' then Some 1704412800000 else None),
      numberToString = (\<lambda>n. (if n < 0 then ''-'' else []) @ show_nat (nat \<bar>n\<bar>)),
      boolToNumber = (\<lambda>b. if b then 1 else 0),
      numberToDate = (\<lambda>n. Some n),
      falsyNumber = (\<lambda>n. n = 0),
      compositeToString = (\<lambda>v. None),
      compositeToNumber = (\<lambda>v. None),
      compositeToDate = (\<lambda>v. None)\<rparr>"

definition demo_user :: user where
  "demo_user = \<lparr>name = Some ''Admin''\<rparr>"

definition demo_request :: "int request" where
  "demo_request =
     \<lparr>body = [''employeeName'' \<mapsto> JString ''Carol'', ''amount'' \<mapsto> JString ''500'',
              ''type'' \<mapsto> JString ''advance''],
      session_user = Some demo_user, params_id = ''SAL1700000000000''\<rparr>"

definition demo_clock :: clock where
  "demo_clock = \<lparr>now = 1700000000900, until_date = 1, until_created = 1\<rparr>"

text \<open>A clock whose reading gives the identifier \<open>bob\<close> already has.\<close>

definition colliding_clock :: clock where
  "colliding_clock = \<lparr>now = 1700000000500, until_date = 0, until_created = 1\<rparr>"

text \<open>What \<open>demo_request\<close> stores at \<open>demo_clock\<close>.\<close>

definition carol :: "int salary" where
  "carol = \<lparr>salaryId = ''SAL1700000000900'', employeeName = ''Carol'', amount = 500,
     type = Some ''advance'', date = 1700000000901, notes = None,
     recordedBy = Some ''Admin'', createdAt = Some 1700000000902\<rparr>"

definition bonus_request :: "int request" where
  "bonus_request =
     \<lparr>body = [''employeeName'' \<mapsto> JString ''Carol'', ''amount'' \<mapsto> JString ''500'',
              ''type'' \<mapsto> JString ''bonus''],
      session_user = Some demo_user, params_id = []\<rparr>"

text \<open>JSON bodies: the amount is a number; the type is an array, and \<open>null\<close>.\<close>

definition array_type_request :: "int request" where
  "array_type_request =
     \<lparr>body = [''employeeName'' \<mapsto> JString ''Carol'', ''amount'' \<mapsto> JNumber 500,
              ''type'' \<mapsto> JArray [JString ''full'']],
      session_user = Some demo_user, params_id = []\<rparr>"

definition null_type_request :: "int request" where
  "null_type_request =
     \<lparr>body = [''employeeName'' \<mapsto> JString ''Carol'', ''amount'' \<mapsto> JNumber 500,
              ''type'' \<mapsto> JNull],
      session_user = Some demo_user, params_id = []\<rparr>"

definition untyped_request :: "int request" where
  "untyped_request =
     \<lparr>body = [''employeeName'' \<mapsto> JString ''Carol'', ''amount'' \<mapsto> JString ''500''],
      session_user = Some demo_user, params_id = []\<rparr>"

text \<open>\<open>demo_request\<close> with fields the handler does not read.\<close>

definition spoofing_request :: "int request" where
  "spoofing_request =
     \<lparr>body = [''employeeName'' \<mapsto> JString ''Carol'', ''amount'' \<mapsto> JString ''500'',
              ''type'' \<mapsto> JString ''advance'', ''salaryId'' \<mapsto> JString ''SAL1'',
              ''recordedBy'' \<mapsto> JString ''Mallory'', ''createdAt'' \<mapsto> JNumber 0],
      session_user = Some demo_user, params_id = ''SAL1''\<rparr>"

definition anonymous_request :: "int request" where
  "anonymous_request =
     \<lparr>body = [''employeeName'' \<mapsto> JString ''Carol'', ''amount'' \<mapsto> JString ''500'',
              ''type'' \<mapsto> JString ''advance''],
      session_user = None, params_id = []\<rparr>"

definition stale_request :: "int request" where
  "stale_request = \<lparr>body = Map.empty, session_user = Some demo_user, params_id = ''SAL42''\<rparr>"

lemmas schema_defs =
  salaryId_opts_def employeeName_opts_def amount_opts_def type_opts_def date_opts_def
  notes_opts_def recordedBy_opts_def createdAt_opts_def

lemmas create_defs =
  addSalary_def save_def validate_def invalid_paths_def path_fails_def required_fails_def
  enum_fails_def new_Salary_def create_input_def apply_default_def date_or_now_def
  to_option_def schema_defs

lemmas demo_defs =
  demo_store_def demo_engine_def demo_user_def demo_request_def demo_clock_def
  colliding_clock_def alice_def bob_def carol_def bonus_request_def untyped_request_def
  array_type_request_def null_type_request_def
  spoofing_request_def anonymous_request_def stale_request_def

section \<open>Decimal text\<close>

lemma digit_val_digit_char: "n < 10 \<Longrightarrow> digit_val (digit_char n) = n"
proof -
  assume "n < 10"
  then have "n \<in> {0, 1, 2, 3, 4, 5, 6, 7, 8, 9}" by auto
  then show ?thesis by auto
qed

lemma read_nat_snoc: "read_nat (s @ [c]) = 10 * read_nat s + digit_val c"
  by (simp add: read_nat_def)

lemma read_show_nat: "read_nat (show_nat n) = n"
proof (induction n rule: show_nat.induct)
  case (1 n)
  show ?case
  proof (cases "n < 10")
    case True
    then show ?thesis
      using digit_val_digit_char[of n]
      by (subst show_nat.simps) (simp add: read_nat_def del: digit_val.simps digit_char.simps)
  next
    case False
    then have "read_nat (show_nat n) =
        10 * read_nat (show_nat (n div 10)) + digit_val (digit_char (n mod 10))"
      by (subst show_nat.simps)
         (simp add: read_nat_snoc del: digit_val.simps digit_char.simps)
    also have "\<dots> = 10 * (n div 10) + n mod 10"
      using 1[OF False] digit_val_digit_char[of "n mod 10"]
      by (simp del: digit_val.simps digit_char.simps)
    finally show ?thesis by simp
  qed
qed

section \<open>Listing\<close>

lemma sort_date_desc_sorted:
  "sorted_wrt (\<lambda>a b. date b \<le> date a) (sort_key (\<lambda>d. - date d) xs)"
proof -
  have "sorted (map (\<lambda>d. - date d) (sort_key (\<lambda>d. - date d) xs))"
    by (rule sorted_sort_key)
  then show ?thesis by (simp add: sorted_map)
qed

text \<open>
  C1. While the database can be reached, the list handler renders the page
  \<open>pages/salaries\<close> with every stored record, each exactly as often as it is stored (nothing
  is filtered out or cut off), ordered by \<open>date\<close> descending; the order among records of
  equal date is not fixed by the statement. The store is not changed.
\<close>

theorem getSalaries_all_by_date_desc:
  "online st \<Longrightarrow>
   \<exists>pg. getSalaries req st = (Render ''pages/salaries'' pg, None, st) \<and>
     mset (salaries pg) = mset (docs st) \<and> length (salaries pg) = length (docs st) \<and>
     sorted_wrt (\<lambda>a b. date b \<le> date a) (salaries pg)"
  by (simp add: getSalaries_def find_sort_date_desc_def sort_date_desc_sorted)

theorem getSalaries_all_by_date_desc_witness:
  "online demo_store \<and>
   (\<exists>pg. getSalaries demo_request demo_store = (Render ''pages/salaries'' pg, None, demo_store) \<and>
     mset (salaries pg) = mset (docs demo_store) \<and>
     length (salaries pg) = length (docs demo_store) \<and>
     sorted_wrt (\<lambda>a b. date b \<le> date a) (salaries pg)) \<and>
   find_sort_date_desc demo_store = Inr [bob, alice]"
proof -
  have h: "online demo_store" by (simp add: demo_store_def)
  have s: "find_sort_date_desc demo_store = Inr [bob, alice]"
    by (simp add: find_sort_date_desc_def demo_store_def alice_def bob_def)
  from h getSalaries_all_by_date_desc[OF h, of demo_request] s show ?thesis by blast
qed

section \<open>Validation and creation\<close>

lemma show_nat_digits: "set (show_nat n) \<subseteq> set ''0123456789''"
proof (induction n rule: show_nat.induct)
  case (1 n)
  have d: "\<And>k. k < 10 \<Longrightarrow> digit_char k \<in> set ''0123456789''"
  proof -
    fix k :: nat assume "k < 10"
    then have "k \<in> {0, 1, 2, 3, 4, 5, 6, 7, 8, 9}" by auto
    then show "digit_char k \<in> set ''0123456789''" by auto
  qed
  show ?case
  proof (cases "n < 10")
    case True
    then show ?thesis
      using d[of n] by (subst show_nat.simps) (simp del: digit_char.simps)
  next
    case False
    have "set (show_nat n) = set (show_nat (n div 10)) \<union> {digit_char (n mod 10)}"
      using False by (subst show_nat.simps) (simp del: digit_char.simps)
    then show ?thesis
      using 1[OF False] d[of "n mod 10"] by (simp del: digit_char.simps)
  qed
qed

lemma validate_Inr:
  assumes "validate d = Inr doc"
  shows "p_salaryId d = Value (salaryId doc) \<and> p_employeeName d = Value (employeeName doc) \<and>
         p_amount d = Value (amount doc) \<and> p_date d = Value (date doc) \<and>
         type doc = to_option (p_type d) \<and> notes doc = to_option (p_notes d) \<and>
         recordedBy doc = to_option (p_recordedBy d) \<and>
         createdAt doc = to_option (p_createdAt d) \<and> invalid_paths d = []"
  using assms by (auto simp: validate_def split: cast.splits if_splits)

text \<open>Validation never fails without naming a path.\<close>

lemma validate_Inl: "validate d = Inl ps \<Longrightarrow> ps = invalid_paths d \<and> ps \<noteq> []"
  apply (auto simp: validate_def split: cast.splits if_splits)
  apply (auto simp: invalid_paths_def path_fails_def required_fails_def salaryId_opts_def
      employeeName_opts_def amount_opts_def date_opts_def split: if_splits)
  done

lemma validate_ok: "invalid_paths d = [] \<Longrightarrow> \<exists>doc. validate d = Inr doc"
  using validate_Inl[of d] by (cases "validate d") auto

text \<open>What a redirect of the create handler tells about the run.\<close>

lemma addSalary_Redirect:
  assumes "addSalary eng clk req st = (Redirect tgt, lg, st')"
  shows "\<exists>u doc. session_user req = Some u \<and>
           validate (new_Salary eng (now clk + until_date clk + until_created clk)
                       (create_input eng clk req u)) = Inr doc \<and>
           online st \<and> salaryId doc \<notin> salaryId ` set (docs st) \<and>
           st' = st\<lparr>docs := docs st @ [doc]\<rparr> \<and> tgt = ''/salaries'' \<and> lg = None"
  using assms
  by (auto simp: addSalary_def save_def salaryId_opts_def
      split: option.splits sum.splits if_splits)

lemma new_Salary_salaryId:
  "p_salaryId (new_Salary eng c (create_input eng clk req u)) = Value (''SAL'' @ show_nat (now clk))"
  by (simp add: new_Salary_def create_input_def apply_default_def)

lemma castString_Some: "castString eng (Some v) \<noteq> Missing"
  by (cases v) (simp_all split: option.splits)

text \<open>The default of \<open>type\<close> is for a document that was given none; a given value is cast.\<close>

lemma new_Salary_type:
  "p_type (new_Salary eng c obj) =
     (case in_type obj of None \<Rightarrow> Value ''full'' | Some v \<Rightarrow> castString eng (Some v))"
proof (cases "in_type obj")
  case None
  then show ?thesis by (simp add: new_Salary_def apply_default_def type_opts_def)
next
  case (Some v)
  then show ?thesis
    using castString_Some[of eng v]
    by (simp add: new_Salary_def apply_default_def split: cast.splits)
qed


lemma new_Salary_recordedBy:
  "to_option (p_recordedBy (new_Salary eng c (create_input eng clk req u))) = name u"
  by (cases "name u")
     (simp_all add: new_Salary_def create_input_def apply_default_def to_option_def
        recordedBy_opts_def)

text \<open>A value that is there and is not \<open>null\<close> is cast to a string, or the cast fails.\<close>

lemma castString_present:
  "v \<noteq> JNull \<Longrightarrow>
   castString eng (Some v) = CastError \<or> (\<exists>s. castString eng (Some v) = Value s)"
  by (cases v) (simp_all split: option.splits)

lemma type_invalid:
  "p_type d = CastError \<or> (\<exists>s. p_type d = Value s \<and> s \<notin> set [''full'', ''advance'']) \<Longrightarrow>
   ''type'' \<in> set (invalid_paths d)"
  by (auto simp: invalid_paths_def path_fails_def enum_fails_def type_opts_def)

lemma type_valid:
  "p_type d = Null \<or> p_type d = Value ''full'' \<Longrightarrow> ''type'' \<notin> set (invalid_paths d)"
  by (auto simp: invalid_paths_def path_fails_def enum_fails_def required_fails_def type_opts_def)

lemma created_salaryId:
  assumes "validate (new_Salary eng c (create_input eng clk req u)) = Inr doc"
  shows "salaryId doc = ''SAL'' @ show_nat (now clk)"
  using validate_Inr[OF assms] new_Salary_salaryId[of eng c clk req u] by simp

lemma save_invalid_type:
  assumes "in_type obj = Some v" and "v \<noteq> JNull"
    and "castString eng (Some v) \<notin> {Value ''full'', Value ''advance''}"
  shows "\<exists>ps. save (new_Salary eng c obj) st = Inl (ValidationError ps) \<and> ''type'' \<in> set ps"
proof -
  have t: "p_type (new_Salary eng c obj) = castString eng (Some v)"
    using assms(1) by (simp add: new_Salary_type)
  have "p_type (new_Salary eng c obj) = CastError \<or>
      (\<exists>s. p_type (new_Salary eng c obj) = Value s \<and> s \<notin> set [''full'', ''advance''])"
    using castString_present[OF assms(2), of eng] assms(3) t by auto
  from type_invalid[OF this]
  have m: "''type'' \<in> set (invalid_paths (new_Salary eng c obj))" .
  then have "invalid_paths (new_Salary eng c obj) \<noteq> []" by auto
  then obtain ps where "validate (new_Salary eng c obj) = Inl ps"
    using validate_Inr[of "new_Salary eng c obj"]
    by (cases "validate (new_Salary eng c obj)") auto
  with validate_Inl[OF this] m show ?thesis by (simp add: save_def)
qed

lemma addSalary_invalid_type:
  assumes "body req ''type'' = Some v" and "v \<noteq> JNull"
    and "castString eng (Some v) \<notin> {Value ''full'', Value ''advance''}"
  shows "\<exists>err. addSalary eng clk req st = (Status 500 ''Server Error'', Some err, st) \<and>
           (session_user req \<noteq> None \<longrightarrow> (\<exists>ps. err = ValidationError ps \<and> ''type'' \<in> set ps))"
proof (cases "session_user req")
  case None
  then show ?thesis by (simp add: addSalary_def)
next
  case (Some u)
  have "in_type (create_input eng clk req u) = Some v"
    using assms(1) by (simp add: create_input_def)
  from save_invalid_type[OF this assms(2) assms(3),
      of "now clk + until_date clk + until_created clk" st]
  obtain ps where "save (new_Salary eng (now clk + until_date clk + until_created clk)
      (create_input eng clk req u)) st = Inl (ValidationError ps)" "''type'' \<in> set ps"
    by blast
  then show ?thesis using Some by (simp add: addSalary_def)
qed

text \<open>The type a successful create stores is what the \<open>type\<close> path of the document holds.\<close>

lemma addSalary_stored_type:
  assumes "addSalary eng clk req st = (Redirect tgt, lg, st')"
  shows "\<exists>doc. docs st' = docs st @ [doc] \<and>
           type doc = to_option (case body req ''type'' of None \<Rightarrow> Value ''full''
                                 | Some v \<Rightarrow> castString eng (Some v))"
proof -
  from addSalary_Redirect[OF assms] obtain u doc where
    v: "validate (new_Salary eng (now clk + until_date clk + until_created clk)
                       (create_input eng clk req u)) = Inr doc"
    and st': "st' = st\<lparr>docs := docs st @ [doc]\<rparr>" by blast
  have "in_type (create_input eng clk req u) = body req ''type''"
    by (simp add: create_input_def)
  then have "type doc = to_option (case body req ''type'' of None \<Rightarrow> Value ''full''
                                 | Some v \<Rightarrow> castString eng (Some v))"
    using validate_Inr[OF v] by (simp add: new_Salary_type)
  then show ?thesis using st' by simp
qed

lemma demo_create:
  "addSalary demo_engine demo_clock demo_request demo_store =
     (Redirect ''/salaries'', None, demo_store\<lparr>docs := [alice, bob, carol]\<rparr>)"
  by (simp add: create_defs demo_defs show_nat.simps)

text \<open>
  C2. Whenever the create handler succeeds (it redirects), the store has gained one record
  at its end, and that record's \<open>salaryId\<close> is ``SAL'' followed by the decimal text of the
  clock's reading at the call (a string of decimal digits that denotes that reading); so it
  is not empty, starts with ``SAL'', and is the \<open>salaryId\<close> of no record that was there
  (identifiers that were distinct stay distinct).
  When the generated identifier is already taken, an otherwise valid create is answered with
  500, the duplicate-key error is what is logged, and the store is unchanged.
\<close>

theorem addSalary_salaryId_from_clock:
  "(addSalary eng clk req st = (Redirect tgt, lg, st') \<longrightarrow>
     (\<exists>doc. docs st' = docs st @ [doc] \<and> salaryId doc = ''SAL'' @ show_nat (now clk) \<and>
        read_nat (show_nat (now clk)) = now clk \<and>
        set (show_nat (now clk)) \<subseteq> set ''0123456789'' \<and>
        salaryId doc \<noteq> [] \<and> take 3 (salaryId doc) = ''SAL'' \<and>
        salaryId doc \<notin> salaryId ` set (docs st) \<and>
        (distinct (map salaryId (docs st)) \<longrightarrow> distinct (map salaryId (docs st'))))) \<and>
   (session_user req = Some u \<and>
    invalid_paths (new_Salary eng (now clk + until_date clk + until_created clk)
       (create_input eng clk req u)) = [] \<and>
    online st \<and> ''SAL'' @ show_nat (now clk) \<in> salaryId ` set (docs st) \<longrightarrow>
      addSalary eng clk req st = (Status 500 ''Server Error'', Some DuplicateKey, st))"
proof (intro conjI impI)
  assume a: "addSalary eng clk req st = (Redirect tgt, lg, st')"
  from addSalary_Redirect[OF a] obtain u' doc where
    v: "validate (new_Salary eng (now clk + until_date clk + until_created clk)
                       (create_input eng clk req u')) = Inr doc"
    and fresh: "salaryId doc \<notin> salaryId ` set (docs st)"
    and st': "st' = st\<lparr>docs := docs st @ [doc]\<rparr>" by blast
  have sid: "salaryId doc = ''SAL'' @ show_nat (now clk)" by (rule created_salaryId[OF v])
  have "docs st' = docs st @ [doc]" using st' by simp
  moreover have "salaryId doc \<noteq> []" "take 3 (salaryId doc) = ''SAL''" using sid by simp_all
  moreover have "distinct (map salaryId (docs st)) \<longrightarrow> distinct (map salaryId (docs st'))"
    using st' fresh by simp
  ultimately show "\<exists>doc. docs st' = docs st @ [doc] \<and>
        salaryId doc = ''SAL'' @ show_nat (now clk) \<and>
        read_nat (show_nat (now clk)) = now clk \<and>
        set (show_nat (now clk)) \<subseteq> set ''0123456789'' \<and>
        salaryId doc \<noteq> [] \<and> take 3 (salaryId doc) = ''SAL'' \<and>
        salaryId doc \<notin> salaryId ` set (docs st) \<and>
        (distinct (map salaryId (docs st)) \<longrightarrow> distinct (map salaryId (docs st')))"
    using sid fresh read_show_nat show_nat_digits by blast
next
  assume b: "session_user req = Some u \<and>
    invalid_paths (new_Salary eng (now clk + until_date clk + until_created clk)
       (create_input eng clk req u)) = [] \<and>
    online st \<and> ''SAL'' @ show_nat (now clk) \<in> salaryId ` set (docs st)"
  then obtain doc where
    v: "validate (new_Salary eng (now clk + until_date clk + until_created clk)
       (create_input eng clk req u)) = Inr doc"
    using validate_ok by blast
  have sid: "salaryId doc = ''SAL'' @ show_nat (now clk)" by (rule created_salaryId[OF v])
  show "addSalary eng clk req st = (Status 500 ''Server Error'', Some DuplicateKey, st)"
    using b v sid by (simp add: addSalary_def save_def salaryId_opts_def)
qed

theorem addSalary_salaryId_from_clock_witness:
  "addSalary demo_engine demo_clock demo_request demo_store =
     (Redirect ''/salaries'', None, demo_store\<lparr>docs := [alice, bob, carol]\<rparr>) \<and>
   (\<exists>doc. docs (demo_store\<lparr>docs := [alice, bob, carol]\<rparr>) = docs demo_store @ [doc] \<and>
      salaryId doc = ''SAL'' @ show_nat (now demo_clock) \<and>
      read_nat (show_nat (now demo_clock)) = now demo_clock \<and>
      set (show_nat (now demo_clock)) \<subseteq> set ''0123456789'' \<and>
      salaryId doc \<noteq> [] \<and> take 3 (salaryId doc) = ''SAL'' \<and>
      salaryId doc \<notin> salaryId ` set (docs demo_store) \<and>
      (distinct (map salaryId (docs demo_store)) \<longrightarrow>
         distinct (map salaryId (docs (demo_store\<lparr>docs := [alice, bob, carol]\<rparr>))))) \<and>
   ''SAL'' @ show_nat (now colliding_clock) \<in> salaryId ` set (docs demo_store) \<and>
   addSalary demo_engine colliding_clock demo_request demo_store =
     (Status 500 ''Server Error'', Some DuplicateKey, demo_store)"
proof -
  have hyp: "session_user demo_request = Some demo_user \<and>
    invalid_paths (new_Salary demo_engine
       (now colliding_clock + until_date colliding_clock + until_created colliding_clock)
       (create_input demo_engine colliding_clock demo_request demo_user)) = [] \<and>
    online demo_store \<and>
    ''SAL'' @ show_nat (now colliding_clock) \<in> salaryId ` set (docs demo_store)"
    by (simp add: create_defs demo_defs show_nat.simps)
  note ok = addSalary_salaryId_from_clock[where eng = demo_engine and clk = demo_clock
      and req = demo_request and st = demo_store and tgt = "''/salaries''" and lg = None
      and st' = "demo_store\<lparr>docs := [alice, bob, carol]\<rparr>",
      THEN conjunct1, THEN mp, OF demo_create]
  note clash = addSalary_salaryId_from_clock[where eng = demo_engine
      and clk = colliding_clock and req = demo_request and st = demo_store and u = demo_user,
      THEN conjunct2, THEN mp, OF hyp]
  note member = hyp[THEN conjunct2, THEN conjunct2, THEN conjunct2]
  show ?thesis
    by (intro conjI) (rule demo_create, rule ok, rule member, rule clash)
qed

text \<open>
  C3, as the code has it. A document whose \<open>type\<close> is given, is not \<open>null\<close>, and is not
  cast to ``full'' or ``advance'' is rejected by \<open>save\<close> with a validation error that names
  the path \<open>type\<close>; this is so for every string other than these two, for every boolean and
  for every value whose cast fails. The create handler then answers 500 and leaves the
  store as it was; the error it logs is that validation error whenever the session has a
  user. A \<open>type\<close> of \<open>null\<close> is not rejected: the path \<open>type\<close> passes validation, and a
  create that succeeds stores a record with no \<open>type\<close> value. When the body has no
  \<open>type\<close> and the create succeeds, the stored record's \<open>type\<close> is ``full''.
\<close>

theorem addSalary_type_enum_and_default:
  "(in_type obj = Some v \<and> v \<noteq> JNull \<and>
    castString eng (Some v) \<notin> {Value ''full'', Value ''advance''} \<longrightarrow>
      (\<exists>ps. save (new_Salary eng c obj) st = Inl (ValidationError ps) \<and> ''type'' \<in> set ps)) \<and>
   (body req ''type'' = Some v \<and> v \<noteq> JNull \<and>
    castString eng (Some v) \<notin> {Value ''full'', Value ''advance''} \<longrightarrow>
      (\<exists>err. addSalary eng clk req st = (Status 500 ''Server Error'', Some err, st) \<and>
         (session_user req \<noteq> None \<longrightarrow>
            (\<exists>ps. err = ValidationError ps \<and> ''type'' \<in> set ps)))) \<and>
   (body req ''type'' = Some (JString t) \<and> t \<notin> set [''full'', ''advance''] \<longrightarrow>
      (\<exists>err. addSalary eng clk req st = (Status 500 ''Server Error'', Some err, st) \<and>
         (session_user req \<noteq> None \<longrightarrow>
            (\<exists>ps. err = ValidationError ps \<and> ''type'' \<in> set ps)))) \<and>
   (body req ''type'' = Some (JBool b) \<longrightarrow>
      (\<exists>err. addSalary eng clk req st = (Status 500 ''Server Error'', Some err, st) \<and>
         (session_user req \<noteq> None \<longrightarrow>
            (\<exists>ps. err = ValidationError ps \<and> ''type'' \<in> set ps)))) \<and>
   (in_type obj = Some JNull \<longrightarrow> ''type'' \<notin> set (invalid_paths (new_Salary eng c obj))) \<and>
   (body req ''type'' = Some JNull \<and> addSalary eng clk req st = (Redirect tgt, lg, st') \<longrightarrow>
      (\<exists>doc. docs st' = docs st @ [doc] \<and> type doc = None)) \<and>
   (body req ''type'' = None \<and> addSalary eng clk req st = (Redirect tgt, lg, st') \<longrightarrow>
      (\<exists>doc. docs st' = docs st @ [doc] \<and> type doc = Some ''full''))"
proof (intro conjI impI)
  assume "in_type obj = Some v \<and> v \<noteq> JNull \<and>
    castString eng (Some v) \<notin> {Value ''full'', Value ''advance''}"
  then show "\<exists>ps. save (new_Salary eng c obj) st = Inl (ValidationError ps) \<and> ''type'' \<in> set ps"
    using save_invalid_type by blast
next
  assume "body req ''type'' = Some v \<and> v \<noteq> JNull \<and>
    castString eng (Some v) \<notin> {Value ''full'', Value ''advance''}"
  then show "\<exists>err. addSalary eng clk req st = (Status 500 ''Server Error'', Some err, st) \<and>
         (session_user req \<noteq> None \<longrightarrow> (\<exists>ps. err = ValidationError ps \<and> ''type'' \<in> set ps))"
    using addSalary_invalid_type by blast
next
  assume a: "body req ''type'' = Some (JString t) \<and> t \<notin> set [''full'', ''advance'']"
  then have "castString eng (Some (JString t)) \<notin> {Value ''full'', Value ''advance''}" by simp
  with a show "\<exists>err. addSalary eng clk req st = (Status 500 ''Server Error'', Some err, st) \<and>
         (session_user req \<noteq> None \<longrightarrow> (\<exists>ps. err = ValidationError ps \<and> ''type'' \<in> set ps))"
    using addSalary_invalid_type[of req "JString t" eng clk st] by simp
next
  assume a: "body req ''type'' = Some (JBool b)"
  have "castString eng (Some (JBool b)) \<notin> {Value ''full'', Value ''advance''}" by simp
  with a show "\<exists>err. addSalary eng clk req st = (Status 500 ''Server Error'', Some err, st) \<and>
         (session_user req \<noteq> None \<longrightarrow> (\<exists>ps. err = ValidationError ps \<and> ''type'' \<in> set ps))"
    using addSalary_invalid_type[of req "JBool b" eng clk st] by simp
next
  assume "in_type obj = Some JNull"
  then have "p_type (new_Salary eng c obj) = Null" by (simp add: new_Salary_type)
  then show "''type'' \<notin> set (invalid_paths (new_Salary eng c obj))"
    using type_valid by blast
next
  assume a: "body req ''type'' = Some JNull \<and>
    addSalary eng clk req st = (Redirect tgt, lg, st')"
  then show "\<exists>doc. docs st' = docs st @ [doc] \<and> type doc = None"
    using addSalary_stored_type[of eng clk req st tgt lg st'] by (simp add: to_option_def)
next
  assume a: "body req ''type'' = None \<and> addSalary eng clk req st = (Redirect tgt, lg, st')"
  then show "\<exists>doc. docs st' = docs st @ [doc] \<and> type doc = Some ''full''"
    using addSalary_stored_type[of eng clk req st tgt lg st'] by (simp add: to_option_def)
qed

theorem addSalary_type_enum_and_default_witness:
  "in_type (create_input demo_engine demo_clock array_type_request demo_user) =
     Some (JArray [JString ''full'']) \<and>
   (\<exists>ps. save (new_Salary demo_engine 0
              (create_input demo_engine demo_clock array_type_request demo_user))
            demo_store = Inl (ValidationError ps) \<and> ''type'' \<in> set ps) \<and>
   body array_type_request ''type'' = Some (JArray [JString ''full'']) \<and>
   (\<exists>err. addSalary demo_engine demo_clock array_type_request demo_store =
            (Status 500 ''Server Error'', Some err, demo_store) \<and>
      (session_user array_type_request \<noteq> None \<longrightarrow>
         (\<exists>ps. err = ValidationError ps \<and> ''type'' \<in> set ps))) \<and>
   body bonus_request ''type'' = Some (JString ''bonus'') \<and>
   (\<exists>err. addSalary demo_engine demo_clock bonus_request demo_store =
            (Status 500 ''Server Error'', Some err, demo_store) \<and>
      (session_user bonus_request \<noteq> None \<longrightarrow>
         (\<exists>ps. err = ValidationError ps \<and> ''type'' \<in> set ps))) \<and>
   addSalary demo_engine demo_clock bonus_request demo_store =
     (Status 500 ''Server Error'', Some (ValidationError [''type'']), demo_store) \<and>
   body null_type_request ''type'' = Some JNull \<and>
   addSalary demo_engine demo_clock null_type_request demo_store =
     (Redirect ''/salaries'', None, demo_store\<lparr>docs := [alice, bob, carol\<lparr>type := None\<rparr>]\<rparr>) \<and>
   (\<exists>doc. docs (demo_store\<lparr>docs := [alice, bob, carol\<lparr>type := None\<rparr>]\<rparr>) =
             docs demo_store @ [doc] \<and> type doc = None) \<and>
   body untyped_request ''type'' = None \<and>
   addSalary demo_engine demo_clock untyped_request demo_store =
     (Redirect ''/salaries'', None,
      demo_store\<lparr>docs := [alice, bob, carol\<lparr>type := Some ''full''\<rparr>]\<rparr>) \<and>
   (\<exists>doc. docs (demo_store\<lparr>docs := [alice, bob, carol\<lparr>type := Some ''full''\<rparr>]\<rparr>) =
             docs demo_store @ [doc] \<and> type doc = Some ''full'')"
proof -
  have i1: "in_type (create_input demo_engine demo_clock array_type_request demo_user) =
     Some (JArray [JString ''full''])"
    by (simp add: create_input_def demo_defs)
  have b1: "body array_type_request ''type'' = Some (JArray [JString ''full''])"
    by (simp add: demo_defs)
  have n1: "JArray [JString ''full''] \<noteq> (JNull :: int jsval) \<and>
    castString demo_engine (Some (JArray [JString ''full''])) \<notin>
      {Value ''full'', Value ''advance''}"
    by (simp add: demo_engine_def)
  have b2: "body bonus_request ''type'' = Some (JString ''bonus'')" by (simp add: demo_defs)
  have m2: "''bonus'' \<notin> set [''full'', ''advance'']" by simp
  have e2: "addSalary demo_engine demo_clock bonus_request demo_store =
     (Status 500 ''Server Error'', Some (ValidationError [''type'']), demo_store)"
    by (simp add: create_defs demo_defs show_nat.simps)
  have b3: "body null_type_request ''type'' = Some JNull" by (simp add: demo_defs)
  have e3: "addSalary demo_engine demo_clock null_type_request demo_store =
     (Redirect ''/salaries'', None, demo_store\<lparr>docs := [alice, bob, carol\<lparr>type := None\<rparr>]\<rparr>)"
    by (simp add: create_defs demo_defs show_nat.simps)
  have b4: "body untyped_request ''type'' = None" by (simp add: demo_defs)
  have e4: "addSalary demo_engine demo_clock untyped_request demo_store =
      (Redirect ''/salaries'', None,
       demo_store\<lparr>docs := [alice, bob, carol\<lparr>type := Some ''full''\<rparr>]\<rparr>)"
    by (simp add: create_defs demo_defs show_nat.simps)
  note c1 = addSalary_type_enum_and_default[
      where obj = "create_input demo_engine demo_clock array_type_request demo_user"
      and v = "JArray [JString ''full'']" and eng = demo_engine and c = 0 and st = demo_store,
      THEN conjunct1, THEN mp, OF conjI[OF i1 n1]]
  note c2 = addSalary_type_enum_and_default[where req = array_type_request
      and v = "JArray [JString ''full'']" and eng = demo_engine and clk = demo_clock
      and st = demo_store,
      THEN conjunct2, THEN conjunct1, THEN mp, OF conjI[OF b1 n1]]
  note c3 = addSalary_type_enum_and_default[where req = bonus_request and t = "''bonus''"
      and eng = demo_engine and clk = demo_clock and st = demo_store,
      THEN conjunct2, THEN conjunct2, THEN conjunct1, THEN mp, OF conjI[OF b2 m2]]
  note c4 = addSalary_type_enum_and_default[where req = null_type_request
      and eng = demo_engine and clk = demo_clock and st = demo_store
      and tgt = "''/salaries''" and lg = None
      and st' = "demo_store\<lparr>docs := [alice, bob, carol\<lparr>type := None\<rparr>]\<rparr>",
      THEN conjunct2, THEN conjunct2, THEN conjunct2, THEN conjunct2, THEN conjunct2,
      THEN conjunct1, THEN mp, OF conjI[OF b3 e3]]
  note c5 = addSalary_type_enum_and_default[where req = untyped_request
      and eng = demo_engine and clk = demo_clock and st = demo_store
      and tgt = "''/salaries''" and lg = None
      and st' = "demo_store\<lparr>docs := [alice, bob, carol\<lparr>type := Some ''full''\<rparr>]\<rparr>",
      THEN conjunct2, THEN conjunct2, THEN conjunct2, THEN conjunct2, THEN conjunct2,
      THEN conjunct2, THEN mp, OF conjI[OF b4 e4]]
  show ?thesis
    by (intro conjI)
       (rule i1, rule c1, rule b1, rule c2, rule b2, rule c3, rule e2, rule b3, rule e3,
        rule c4, rule b4, rule e4, rule c5)
qed

text \<open>
  The claim as written fails: a JSON body whose \<open>type\<close> is \<open>null\<close> has a \<open>type\<close> that is
  present and is neither ``full'' nor ``advance'', and the create succeeds and stores a
  record.
\<close>

theorem addSalary_accepts_null_type:
  "body null_type_request ''type'' = Some JNull \<and>
   (JNull :: int jsval) \<notin> {JString ''full'', JString ''advance''} \<and>
   addSalary demo_engine demo_clock null_type_request demo_store =
     (Redirect ''/salaries'', None, demo_store\<lparr>docs := [alice, bob, carol\<lparr>type := None\<rparr>]\<rparr>) \<and>
   length (docs (demo_store\<lparr>docs := [alice, bob, carol\<lparr>type := None\<rparr>]\<rparr>)) =
     Suc (length (docs demo_store))"
  by (simp add: create_defs demo_defs show_nat.simps)



lemma create_input_cong:
  assumes "\<forall>k \<in> set [''employeeName'', ''amount'', ''type'', ''date'', ''notes''].
             body r1 k = body r2 k"
  shows "create_input eng clk r1 u = create_input eng clk r2 u"
  using assms by (simp add: create_input_def)

text \<open>
  C9. Two create requests whose bodies agree on \<open>employeeName\<close>, \<open>amount\<close>, \<open>type\<close>,
  \<open>date\<close> and \<open>notes\<close>, made in the same session, at the same clock readings and on the same
  store, have the same outcome: response, log and store; no other field of the body is
  read. In a stored record the \<open>salaryId\<close> comes from the clock and \<open>recordedBy\<close> is the
  session user's name.
\<close>

theorem addSalary_reads_five_body_fields:
  "((\<forall>k \<in> set [''employeeName'', ''amount'', ''type'', ''date'', ''notes''].
       body r1 k = body r2 k) \<and>
    session_user r1 = session_user r2 \<longrightarrow>
      addSalary eng clk r1 st = addSalary eng clk r2 st) \<and>
   (addSalary eng clk r1 st = (Redirect tgt, lg, st') \<longrightarrow>
      (\<exists>u doc. session_user r1 = Some u \<and> docs st' = docs st @ [doc] \<and>
         salaryId doc = ''SAL'' @ show_nat (now clk) \<and> recordedBy doc = name u))"
proof (intro conjI impI)
  assume a: "(\<forall>k \<in> set [''employeeName'', ''amount'', ''type'', ''date'', ''notes''].
       body r1 k = body r2 k) \<and> session_user r1 = session_user r2"
  then have "\<And>u. create_input eng clk r1 u = create_input eng clk r2 u"
    using create_input_cong by blast
  then show "addSalary eng clk r1 st = addSalary eng clk r2 st"
    using a by (simp add: addSalary_def split: option.splits)
next
  assume r: "addSalary eng clk r1 st = (Redirect tgt, lg, st')"
  from addSalary_Redirect[OF r] obtain u doc where
    u: "session_user r1 = Some u" and
    v: "validate (new_Salary eng (now clk + until_date clk + until_created clk)
                       (create_input eng clk r1 u)) = Inr doc"
    and st': "st' = st\<lparr>docs := docs st @ [doc]\<rparr>" by blast
  have "recordedBy doc = name u"
    using validate_Inr[OF v] new_Salary_recordedBy[of eng _ clk r1 u] by simp
  moreover have "salaryId doc = ''SAL'' @ show_nat (now clk)" by (rule created_salaryId[OF v])
  ultimately show "\<exists>u doc. session_user r1 = Some u \<and> docs st' = docs st @ [doc] \<and>
         salaryId doc = ''SAL'' @ show_nat (now clk) \<and> recordedBy doc = name u"
    using u st' by simp
qed

theorem addSalary_reads_five_body_fields_witness:
  "body spoofing_request ''salaryId'' = Some (JString ''SAL1'') \<and>
   body demo_request ''salaryId'' = None \<and>
   body spoofing_request ''recordedBy'' = Some (JString ''Mallory'') \<and>
   body spoofing_request ''employeeName'' = body demo_request ''employeeName'' \<and>
   body spoofing_request ''amount'' = body demo_request ''amount'' \<and>
   body spoofing_request ''type'' = body demo_request ''type'' \<and>
   body spoofing_request ''date'' = body demo_request ''date'' \<and>
   body spoofing_request ''notes'' = body demo_request ''notes'' \<and>
   session_user spoofing_request = session_user demo_request \<and>
   addSalary demo_engine demo_clock spoofing_request demo_store =
     addSalary demo_engine demo_clock demo_request demo_store \<and>
   addSalary demo_engine demo_clock demo_request demo_store =
     (Redirect ''/salaries'', None, demo_store\<lparr>docs := [alice, bob, carol]\<rparr>) \<and>
   (\<exists>u doc. session_user demo_request = Some u \<and>
      docs (demo_store\<lparr>docs := [alice, bob, carol]\<rparr>) = docs demo_store @ [doc] \<and>
      salaryId doc = ''SAL'' @ show_nat (now demo_clock) \<and> recordedBy doc = name u)"
proof -
  have d: "body spoofing_request ''salaryId'' = Some (JString ''SAL1'')"
    "body demo_request ''salaryId'' = None"
    "body spoofing_request ''recordedBy'' = Some (JString ''Mallory'')"
    by (simp_all add: demo_defs)
  have e: "body spoofing_request ''employeeName'' = body demo_request ''employeeName''"
    "body spoofing_request ''amount'' = body demo_request ''amount''"
    "body spoofing_request ''type'' = body demo_request ''type''"
    "body spoofing_request ''date'' = body demo_request ''date''"
    "body spoofing_request ''notes'' = body demo_request ''notes''"
    "session_user spoofing_request = session_user demo_request"
    by (simp_all add: demo_defs)
  have h: "(\<forall>k \<in> set [''employeeName'', ''amount'', ''type'', ''date'', ''notes''].
       body spoofing_request k = body demo_request k) \<and>
    session_user spoofing_request = session_user demo_request"
    using e by simp
  note same = addSalary_reads_five_body_fields[where ?r1.0 = spoofing_request
      and ?r2.0 = demo_request and eng = demo_engine and clk = demo_clock and st = demo_store,
      THEN conjunct1, THEN mp, OF h]
  note stored = addSalary_reads_five_body_fields[where ?r1.0 = demo_request
      and eng = demo_engine and clk = demo_clock and st = demo_store
      and tgt = "''/salaries''" and lg = None
      and st' = "demo_store\<lparr>docs := [alice, bob, carol]\<rparr>",
      THEN conjunct2, THEN mp, OF demo_create]
  show ?thesis
    by (intro conjI) (rule d e same demo_create stored)+
qed

text \<open>
  C10. When the session has no user, the create handler answers 500, what it logs is the
  \<open>TypeError\<close> of reading the user's name, and the store is exactly as it was.
\<close>

theorem addSalary_without_session_user:
  "session_user req = None \<Longrightarrow>
   addSalary eng clk req st = (Status 500 ''Server Error'', Some TypeError, st)"
  by (simp add: addSalary_def)

theorem addSalary_without_session_user_witness:
  "session_user anonymous_request = None \<and>
   addSalary demo_engine demo_clock anonymous_request demo_store =
     (Status 500 ''Server Error'', Some TypeError, demo_store)"
proof -
  have h: "session_user anonymous_request = None" by (simp add: demo_defs)
  show ?thesis
    by (intro conjI) (rule h, rule addSalary_without_session_user[OF h])
qed

section \<open>Deleting\<close>

lemma delete_first_miss: "\<forall>x\<in>set xs. \<not> P x \<Longrightarrow> delete_first P xs = xs"
  by (induction xs) auto

lemma delete_first_hit:
  "\<exists>x\<in>set xs. P x \<Longrightarrow>
   \<exists>before d after. xs = before @ d # after \<and> P d \<and> (\<forall>y\<in>set before. \<not> P y) \<and>
     delete_first P xs = before @ after"
proof (induction xs)
  case Nil
  then show ?case by simp
next
  case (Cons x xs)
  show ?case
  proof (cases "P x")
    case True
    then have "x # xs = [] @ x # xs \<and> P x \<and> (\<forall>y\<in>set []. \<not> P y) \<and>
        delete_first P (x # xs) = [] @ xs"
      by simp
    then show ?thesis by blast
  next
    case False
    with Cons.prems have "\<exists>x\<in>set xs. P x" by auto
    from Cons.IH[OF this] obtain before d after where
      "xs = before @ d # after" "P d" "\<forall>y\<in>set before. \<not> P y"
      "delete_first P xs = before @ after"
      by blast
    with False have "x # xs = (x # before) @ d # after \<and> P d \<and>
        (\<forall>y\<in>set (x # before). \<not> P y) \<and>
        delete_first P (x # xs) = (x # before) @ after"
      by simp
    then show ?thesis by blast
  qed
qed

text \<open>
  C4. While the database can be reached, deleting a \<open>salaryId\<close> that no stored record has
  redirects to the list page, logs nothing and leaves the store exactly as it was. Whatever
  the request, the delete handler either redirects or, only when the database cannot be
  reached, answers 500 for that reason: it has no not-found outcome.
\<close>

theorem deleteSalary_miss_is_silent:
  "(online st \<and> params_id req \<notin> salaryId ` set (docs st) \<longrightarrow>
      deleteSalary req st = (Redirect ''/salaries'', None, st)) \<and>
   (fst (deleteSalary req st) = Redirect ''/salaries'' \<or>
    \<not> online st \<and>
    deleteSalary req st = (Status 500 ''Server Error'', Some StoreUnavailable, st))"
proof -
  have "online st \<Longrightarrow> params_id req \<notin> salaryId ` set (docs st) \<Longrightarrow>
      delete_first (\<lambda>d. salaryId d = params_id req) (docs st) = docs st"
    by (rule delete_first_miss) (metis imageI)
  then show ?thesis
    by (auto simp: deleteSalary_def findOneAndDelete_def)
qed

theorem deleteSalary_miss_is_silent_witness:
  "online demo_store \<and> params_id stale_request \<notin> salaryId ` set (docs demo_store) \<and>
   deleteSalary stale_request demo_store = (Redirect ''/salaries'', None, demo_store) \<and>
   length (docs (snd (snd (deleteSalary stale_request demo_store)))) = 2"
proof -
  have h: "online demo_store \<and> params_id stale_request \<notin> salaryId ` set (docs demo_store)"
    by (simp add: demo_defs)
  note miss = deleteSalary_miss_is_silent[where st = demo_store and req = stale_request,
      THEN conjunct1, THEN mp, OF h]
  have n: "length (docs (snd (snd (deleteSalary stale_request demo_store)))) = 2"
    by (simp add: miss) (simp add: demo_store_def)
  show ?thesis
    by (intro conjI) (rule h[THEN conjunct1], rule h[THEN conjunct2], rule miss, rule n)
qed

text \<open>
  C5. While the database can be reached, deleting a \<open>salaryId\<close> that a stored record has
  redirects to the list page and removes one record with that \<open>salaryId\<close>, the first in
  the collection: the records before and after it stay, in their order, so the size goes
  down by exactly one. When the identifiers in the store are distinct, no record with that
  \<open>salaryId\<close> is left.
\<close>

theorem deleteSalary_removes_one:
  assumes "online st" and "params_id req \<in> salaryId ` set (docs st)"
  shows "\<exists>before d after. docs st = before @ d # after \<and> salaryId d = params_id req \<and>
      params_id req \<notin> salaryId ` set before \<and>
      deleteSalary req st = (Redirect ''/salaries'', None, st\<lparr>docs := before @ after\<rparr>) \<and>
      Suc (length (before @ after)) = length (docs st) \<and>
      mset (docs st) = add_mset d (mset (before @ after)) \<and>
      (distinct (map salaryId (docs st)) \<longrightarrow>
         params_id req \<notin> salaryId ` set (before @ after))"
proof -
  from assms(2) have "\<exists>x\<in>set (docs st). salaryId x = params_id req" by auto
  from delete_first_hit[of "docs st" "\<lambda>d. salaryId d = params_id req", OF this]
  obtain before d after where
    split: "docs st = before @ d # after" and d: "salaryId d = params_id req"
    and b: "\<forall>y\<in>set before. salaryId y \<noteq> params_id req"
    and del: "delete_first (\<lambda>d. salaryId d = params_id req) (docs st) = before @ after"
    by blast
  have r: "deleteSalary req st = (Redirect ''/salaries'', None, st\<lparr>docs := before @ after\<rparr>)"
    using assms(1) del by (simp add: deleteSalary_def findOneAndDelete_def)
  have u: "distinct (map salaryId (docs st)) \<longrightarrow>
      params_id req \<notin> salaryId ` set (before @ after)"
    using split d by auto
  have "params_id req \<notin> salaryId ` set before" using b by auto
  moreover have "Suc (length (before @ after)) = length (docs st)" using split by simp
  moreover have "mset (docs st) = add_mset d (mset (before @ after))" using split by simp
  ultimately show ?thesis using split d r u by blast
qed

theorem deleteSalary_removes_one_witness:
  "online demo_store \<and> params_id demo_request \<in> salaryId ` set (docs demo_store) \<and>
   (\<exists>before d after. docs demo_store = before @ d # after \<and>
      salaryId d = params_id demo_request \<and>
      params_id demo_request \<notin> salaryId ` set before \<and>
      deleteSalary demo_request demo_store =
        (Redirect ''/salaries'', None, demo_store\<lparr>docs := before @ after\<rparr>) \<and>
      Suc (length (before @ after)) = length (docs demo_store) \<and>
      mset (docs demo_store) = add_mset d (mset (before @ after)) \<and>
      (distinct (map salaryId (docs demo_store)) \<longrightarrow>
         params_id demo_request \<notin> salaryId ` set (before @ after))) \<and>
   deleteSalary demo_request demo_store =
     (Redirect ''/salaries'', None, demo_store\<lparr>docs := [bob]\<rparr>)"
proof -
  have h1: "online demo_store" by (simp add: demo_defs)
  have h2: "params_id demo_request \<in> salaryId ` set (docs demo_store)"
    by (simp add: demo_defs)
  have r: "deleteSalary demo_request demo_store =
     (Redirect ''/salaries'', None, demo_store\<lparr>docs := [bob]\<rparr>)"
    by (simp add: deleteSalary_def findOneAndDelete_def demo_defs)
  show ?thesis
    by (intro conjI) (rule h1, rule h2, rule deleteSalary_removes_one[OF h1 h2], rule r)
qed

section \<open>The memoized connection\<close>

lemmas connect_defs =
  connectDB_def connectDB_connected_def connectDB_fallback_connected_def connect_and_cache_def
  fallback_def isVercel_def truthy_def settle_def

lemmas proc_defs = cold_def local_proc_def connecting_def fulfilled_def warm_def

lemma connectDB_hit: "conn (cached p) = Some h \<Longrightarrow> connectDB p = (Done (Some h), p)"
  by (simp add: connectDB_def)

lemma connectDB_calls_hit:
  "conn (cached p) = Some h \<Longrightarrow> connectDB_calls n p = (replicate n (Done (Some h)), p)"
  by (induction n) (simp_all add: connectDB_hit)

text \<open>
  C7. Once a call has been resumed on a fulfilled attempt, the connection is in the cache,
  and from then on any number of calls of \<open>connectDB\<close> return that same connection at once
  (no call reaches an \<open>await\<close>) and leave the process as it is, so no attempt is started.
  The promise of the attempt is cached as well: the first call starts one attempt and caches
  its promise, and a call that finds a cached promise and no connection yet awaits that
  promise without starting another attempt.
\<close>

theorem connectDB_memoized:
  "(conn (cached p) = Some h \<longrightarrow>
      connectDB p = (Done (Some h), p) \<and>
      connectDB_calls n p = (replicate n (Done (Some h)), p)) \<and>
   (promises p pid = Fulfilled h \<longrightarrow>
      connectDB_connected pid p = (Done (Some h), p\<lparr>cached := (cached p)\<lparr>conn := Some h\<rparr>\<rparr>) \<and>
      connectDB_fallback_connected pid p =
        (Done (Some h), p\<lparr>cached := (cached p)\<lparr>conn := Some h\<rparr>\<rparr>) \<and>
      connectDB_calls n (snd (connectDB_connected pid p)) =
        (replicate n (Done (Some h)), snd (connectDB_connected pid p)) \<and>
      connects (snd (connectDB_calls n (snd (connectDB_connected pid p)))) = connects p) \<and>
   (conn (cached p) = None \<and> truthy (MONGODB_URI p) \<and> promise (cached p) = Some pid \<longrightarrow>
      connectDB p = (AwaitConnect pid, p)) \<and>
   (conn (cached p) = None \<and> truthy (MONGODB_URI p) \<and> promise (cached p) = None \<longrightarrow>
      fst (connectDB p) = AwaitConnect (connects p) \<and>
      promise (cached (snd (connectDB p))) = Some (connects p) \<and>
      connects (snd (connectDB p)) = Suc (connects p))"
proof (intro conjI impI)
  assume "conn (cached p) = Some h"
  then show "connectDB p = (Done (Some h), p)" by (rule connectDB_hit)
next
  assume "conn (cached p) = Some h"
  then show "connectDB_calls n p = (replicate n (Done (Some h)), p)" by (rule connectDB_calls_hit)
next
  assume f: "promises p pid = Fulfilled h"
  then show "connectDB_connected pid p =
      (Done (Some h), p\<lparr>cached := (cached p)\<lparr>conn := Some h\<rparr>\<rparr>)"
    by (simp add: connectDB_connected_def)
  from f show "connectDB_fallback_connected pid p =
      (Done (Some h), p\<lparr>cached := (cached p)\<lparr>conn := Some h\<rparr>\<rparr>)"
    by (simp add: connectDB_fallback_connected_def)
  from f have c: "conn (cached (snd (connectDB_connected pid p))) = Some h"
    by (simp add: connectDB_connected_def)
  show calls: "connectDB_calls n (snd (connectDB_connected pid p)) =
      (replicate n (Done (Some h)), snd (connectDB_connected pid p))"
    by (rule connectDB_calls_hit[OF c])
  show "connects (snd (connectDB_calls n (snd (connectDB_connected pid p)))) = connects p"
    using f by (simp add: calls) (simp add: connectDB_connected_def)
next
  assume "conn (cached p) = None \<and> truthy (MONGODB_URI p) \<and> promise (cached p) = Some pid"
  then show "connectDB p = (AwaitConnect pid, p)" by (simp add: connectDB_def)
next
  assume a: "conn (cached p) = None \<and> truthy (MONGODB_URI p) \<and> promise (cached p) = None"
  then show "fst (connectDB p) = AwaitConnect (connects p)"
    by (simp add: connectDB_def connect_and_cache_def)
  from a show "promise (cached (snd (connectDB p))) = Some (connects p)"
    by (simp add: connectDB_def connect_and_cache_def)
  from a show "connects (snd (connectDB p)) = Suc (connects p)"
    by (simp add: connectDB_def connect_and_cache_def)
qed

theorem connectDB_memoized_witness:
  "(conn (cached cold) = None \<and> truthy (MONGODB_URI cold) \<and> promise (cached cold) = None) \<and>
   (fst (connectDB cold) = AwaitConnect (connects cold) \<and>
    promise (cached (snd (connectDB cold))) = Some (connects cold) \<and>
    connects (snd (connectDB cold)) = Suc (connects cold)) \<and>
   (conn (cached connecting) = None \<and> truthy (MONGODB_URI connecting) \<and>
    promise (cached connecting) = Some 0) \<and>
   connectDB connecting = (AwaitConnect 0, connecting) \<and>
   promises fulfilled 0 = Fulfilled 7 \<and>
   connectDB_calls 3 (snd (connectDB_connected 0 fulfilled)) =
     (replicate 3 (Done (Some 7)), snd (connectDB_connected 0 fulfilled)) \<and>
   connects (snd (connectDB_calls 3 (snd (connectDB_connected 0 fulfilled)))) =
     connects fulfilled \<and>
   conn (cached warm) = Some 7 \<and>
   connectDB warm = (Done (Some 7), warm) \<and>
   connects warm = 1"
proof -
  have h1: "conn (cached cold) = None \<and> truthy (MONGODB_URI cold) \<and> promise (cached cold) = None"
    by (simp add: cold_def truthy_def)
  have h2: "conn (cached connecting) = None \<and> truthy (MONGODB_URI connecting) \<and>
    promise (cached connecting) = Some 0"
    by (simp add: proc_defs connect_defs)
  have h3: "promises fulfilled 0 = Fulfilled 7"
    by (simp add: proc_defs connect_defs)
  have h4: "conn (cached warm) = Some 7"
    by (simp add: proc_defs connect_defs)
  have n: "connects warm = 1"
    by (simp add: proc_defs connect_defs)
  note first = connectDB_memoized[where p = cold,
      THEN conjunct2, THEN conjunct2, THEN conjunct2, THEN mp, OF h1]
  note shared = connectDB_memoized[where p = connecting and pid = 0,
      THEN conjunct2, THEN conjunct2, THEN conjunct1, THEN mp, OF h2]
  note resumed = connectDB_memoized[where p = fulfilled and pid = 0 and h = 7 and n = 3,
      THEN conjunct2, THEN conjunct1, THEN mp, OF h3]
  note hit = connectDB_memoized[where p = warm and h = 7 and n = 0,
      THEN conjunct1, THEN mp, OF h4, THEN conjunct1]
  show ?thesis
    by (intro conjI)
       (rule h1[THEN conjunct1], rule h1[THEN conjunct2, THEN conjunct1],
        rule h1[THEN conjunct2, THEN conjunct2],
        rule first[THEN conjunct1], rule first[THEN conjunct2, THEN conjunct1],
        rule first[THEN conjunct2, THEN conjunct2],
        rule h2[THEN conjunct1], rule h2[THEN conjunct2, THEN conjunct1],
        rule h2[THEN conjunct2, THEN conjunct2],
        rule shared, rule h3,
        rule resumed[THEN conjunct2, THEN conjunct2, THEN conjunct1],
        rule resumed[THEN conjunct2, THEN conjunct2, THEN conjunct2],
        rule h4, rule hit, rule n)
qed

section \<open>The guard\<close>

text \<open>
  C8, as the code has it. In the serverless context a request that arrives while the
  connection is not established is answered with 503 ``Setup Required'' and not forwarded,
  unless an attempt was in flight on arrival (state 2) and the connection is established
  when the guard has waited for it: then the request is forwarded. Outside that context
  every request is forwarded.
\<close>

theorem db_guard_503_unless_connected_after_wait:
  "(isVercel p \<and> arrival \<noteq> 1 \<longrightarrow>
      db_guard p arrival threw after =
        (if arrival = 2 \<and> after = 1 then Forward else Reply 503 ''Setup Required'')) \<and>
   (\<not> isVercel p \<longrightarrow> db_guard p arrival threw after = Forward)"
  by (auto simp: db_guard_def isVercel_def)

theorem db_guard_503_unless_connected_after_wait_witness:
  "isVercel cold \<and> (0::nat) \<noteq> 1 \<and> (2::nat) \<noteq> 1 \<and>
   db_guard cold 0 False 0 = Reply 503 ''Setup Required'' \<and>
   db_guard cold 2 False 0 = Reply 503 ''Setup Required'' \<and>
   db_guard cold 2 True 1 = Forward \<and>
   \<not> isVercel local_proc \<and>
   db_guard local_proc 0 False 0 = Forward"
proof -
  have v: "isVercel cold" by (simp add: cold_def isVercel_def truthy_def)
  have l: "\<not> isVercel local_proc" by (simp add: local_proc_def isVercel_def truthy_def)
  have a0: "isVercel cold \<and> (0::nat) \<noteq> 1" using v by simp
  have a2: "isVercel cold \<and> (2::nat) \<noteq> 1" using v by simp
  note down = db_guard_503_unless_connected_after_wait[where p = cold and arrival = 0
      and threw = False and after = 0, THEN conjunct1, THEN mp, OF a0]
  note failed = db_guard_503_unless_connected_after_wait[where p = cold and arrival = 2
      and threw = False and after = 0, THEN conjunct1, THEN mp, OF a2]
  note late = db_guard_503_unless_connected_after_wait[where p = cold and arrival = 2
      and threw = True and after = 1, THEN conjunct1, THEN mp, OF a2]
  note outside = db_guard_503_unless_connected_after_wait[where p = local_proc
      and arrival = 0 and threw = False and after = 0, THEN conjunct2, THEN mp, OF l]
  from down have r0: "db_guard cold 0 False 0 = Reply 503 ''Setup Required''" by simp
  from failed have r1: "db_guard cold 2 False 0 = Reply 503 ''Setup Required''" by simp
  from late have r2: "db_guard cold 2 True 1 = Forward" by simp
  show ?thesis
    by (intro conjI)
       (rule v, simp, simp, rule r0, rule r1, rule r2, rule l, rule outside)
qed

text \<open>
  The claim as written fails: in the serverless context, a request that arrives during the
  cold start (state 2) is forwarded when the attempt it waited for has connected.
\<close>

theorem db_guard_forwards_after_cold_start:
  "isVercel cold \<and> (2::nat) \<noteq> 1 \<and> db_guard cold 2 False 1 = Forward \<and>
   db_guard cold 2 False 1 \<noteq> Reply 503 ''Setup Required''"
  by (simp add: db_guard_def cold_def isVercel_def truthy_def)

end
